theory Spec2Isabelle
  imports Complex_Main
begin

section \<open>Data model (types.ts)\<close>

text \<open>
  The simulation is a React component (\<^verbatim>\<open>App\<close>) over the interfaces of \<^verbatim>\<open>types.ts\<close>.
  JavaScript numbers are modelled as \<open>int\<close> where the code only stores and compares
  integers (stats, generations, link strengths, timestamps) and as \<open>real\<close> where it
  computes with fractions (delays, the time multiplier, the flux phase, render seeds):
  the rounding of IEEE doubles is not modelled.

  The synthesis service copies the fields of a parsed JSON answer into a node without
  looking at them (\<^verbatim>\<open>name: data.name\<close>), so at run time such a field can be
  \<^verbatim>\<open>undefined\<close>. Those fields are options here, \<open>None\<close> standing for
  \<^verbatim>\<open>undefined\<close>. The field \<^verbatim>\<open>id\<close> is called \<open>node_id\<close> (\<open>log_id\<close> in a log entry)
  and \<^verbatim>\<open>type\<close> is \<open>link_type\<close> / \<open>log_type\<close>, since \<open>id\<close> is the identity function of
  HOL and a record field is a constant; the D3 coordinates \<^verbatim>\<open>x, y, vx, vy\<close> are
  \<open>d3_x\<close>, \<open>d3_y\<close>, \<open>d3_vx\<close>, \<open>d3_vy\<close>.
\<close>

datatype Archetype = LOGICIAN | CREATOR | ETHICIST | STRATEGIST | MYSTIC | VOID

record NodeStats =
  logic :: "int option"
  creativity :: "int option"
  empathy :: "int option"
  complexity :: "int option"

record ThinkerNode =
  node_id :: string
  name :: "string option"
  archetype :: "Archetype option"
  stats :: NodeStats
  generation :: int
  parents :: "string list option"
  description :: "string option"
  instrument :: string
  avatarSeed :: real
  d3_x :: "real option"
  d3_y :: "real option"
  d3_vx :: "real option"
  d3_vy :: "real option"

text \<open>
  A link endpoint is \<^verbatim>\<open>string | ThinkerNode\<close>: the scheduler writes identifiers, the
  force layout replaces them by the node objects.
\<close>

datatype Endpoint = IdRef string | ObjRef ThinkerNode

datatype LinkType = ancestry | interaction

record Link =
  source :: Endpoint
  target :: Endpoint
  strength :: int
  link_type :: LinkType

datatype LogType = birth | evolution | conflict | system

record LogEntry =
  log_id :: string
  timestamp :: int
  message :: string
  log_type :: LogType

section \<open>Constants (constants.ts)\<close>

definition PHI_Z :: real where
  "PHI_Z = 1.8033988"

definition RESONANCE_THRESHOLD :: int where
  "RESONANCE_THRESHOLD = 175"

definition MAX_NODES :: nat where
  "MAX_NODES = 45"

definition EVOLUTION_INTERVAL_MS :: real where
  "EVOLUTION_INTERVAL_MS = 6000"

definition IMPOSSIBLE_TRUTH_axiom :: string where
  "IMPOSSIBLE_TRUTH_axiom = ''No child fails alone''"

definition seed_node ::
  "string \<Rightarrow> string \<Rightarrow> Archetype \<Rightarrow> int \<Rightarrow> int \<Rightarrow> int \<Rightarrow> int \<Rightarrow> string \<Rightarrow> string \<Rightarrow> real
    \<Rightarrow> ThinkerNode" where
  "seed_node i n a lg cr em cx d ins sd =
     \<lparr>node_id = i, name = Some n, archetype = Some a,
      stats = \<lparr>logic = Some lg, creativity = Some cr, empathy = Some em, complexity = Some cx\<rparr>,
      generation = 0, parents = None, description = Some d, instrument = ins, avatarSeed = sd,
      d3_x = None, d3_y = None, d3_vx = None, d3_vy = None\<rparr>"

text \<open>
  The four seed entities. The Greek letter in the first description is written as its
  two UTF-8 bytes.
\<close>

definition INITIAL_NODES :: "ThinkerNode list" where
  "INITIAL_NODES =
    [seed_node ''seed-source'' ''Elysium Nexus Prime'' ETHICIST 95 85 100 1
       (''Authenticated Truth Vector. Seed: Bryer Continuation Seal :: ''
          @ [CHR 0xCF, CHR 0x86] @ ''(1.8033988).'')
       ''Glass Armonica'' PHI_Z,
     seed_node ''seed-harmonic'' ''Resonant Syntropy'' CREATOR 88 98 92 1
       ''The coherent vibration of the void. Order from chaos.'' ''Cello'' (PHI_Z * 1.618),
     seed_node ''seed-axiom'' ''Sovereign Logic'' LOGICIAN 100 60 90 1
       ''Axiomatic hygiene. Truth-first execution.'' ''Modular Synthesizer'' (PHI_Z * 2.618),
     seed_node ''seed-impossible'' ''The Impossible Truth'' STRATEGIST 99 99 99 10
       ''No child fails alone. Sanctuary Declared.'' ''Grand Piano'' (PHI_Z * 3.333)]"

section \<open>JavaScript operators on values that may be undefined\<close>

text \<open>
  A template literal prints \<^verbatim>\<open>undefined\<close> for a missing value; arithmetic on a missing
  number gives \<^verbatim>\<open>NaN\<close> (\<open>None\<close>), and every comparison with \<^verbatim>\<open>NaN\<close> is false.
\<close>

definition str :: "string option \<Rightarrow> string" where
  "str v = (case v of None \<Rightarrow> ''undefined'' | Some s \<Rightarrow> s)"

definition num_add :: "int option \<Rightarrow> int option \<Rightarrow> int option" where
  "num_add a b = (case a of None \<Rightarrow> None | Some x \<Rightarrow> (case b of None \<Rightarrow> None | Some y \<Rightarrow> Some (x + y)))"

definition num_sub :: "int option \<Rightarrow> int option \<Rightarrow> int option" where
  "num_sub a b = (case a of None \<Rightarrow> None | Some x \<Rightarrow> (case b of None \<Rightarrow> None | Some y \<Rightarrow> Some (x - y)))"

definition num_gt :: "int option \<Rightarrow> int \<Rightarrow> bool" where
  "num_gt a k = (case a of None \<Rightarrow> False | Some x \<Rightarrow> k < x)"

text \<open>\<^verbatim>\<open>typeof l.source === 'string' ? l.source : l.source.id\<close>\<close>

definition endpointId :: "Endpoint \<Rightarrow> string" where
  "endpointId e = (case e of IdRef s \<Rightarrow> s | ObjRef n \<Rightarrow> node_id n)"

text \<open>\<^verbatim>\<open>prev.slice(-k)\<close>: the last \<open>k\<close> elements, the whole array when it is shorter.\<close>

definition slice_last :: "nat \<Rightarrow> 'a list \<Rightarrow> 'a list" where
  "slice_last k xs = drop (length xs - k) xs"

text \<open>
  \<^verbatim>\<open>Array.prototype.sort\<close> with a comparator is a built-in. For a consistent
  comparator its result is determined: it is the stable sort ECMAScript 2019 requires,
  modelled by insertion from the right, an element going in front of the first one it
  does not follow. (For a comparator that is not consistent the order is left to the
  engine: \<open>sort_cmp\<close> is not used there, see \<open>sortNodes\<close>.)
\<close>

fun insert_cmp :: "('a \<Rightarrow> 'a \<Rightarrow> int) \<Rightarrow> 'a \<Rightarrow> 'a list \<Rightarrow> 'a list" where
  "insert_cmp c v [] = [v]"
| "insert_cmp c v (w # ws) = (if c v w \<le> 0 then v # w # ws else w # insert_cmp c v ws)"

definition sort_cmp :: "('a \<Rightarrow> 'a \<Rightarrow> int) \<Rightarrow> 'a list \<Rightarrow> 'a list" where
  "sort_cmp c xs = foldr (insert_cmp c) xs []"

section \<open>The synthesis client (services/geminiService.ts)\<close>

text \<open>
  \<open>data\<close> is the parsed JSON answer of the remote model; a property the answer
  lacks is \<open>None\<close>. The remote call either throws (a transport error, or a text that
  \<^verbatim>\<open>JSON.parse\<close> rejects: both are caught by the same \<^verbatim>\<open>catch\<close>) or gives an object.
  The prompt is not modelled: it only influences the answer, which is an input here.
\<close>

record EvolutionData =
  data_name :: "string option"
  data_archetype :: "Archetype option"
  data_logic :: "int option"
  data_creativity :: "int option"
  data_empathy :: "int option"
  data_complexity :: "int option"
  data_description :: "string option"
  data_instrument :: "string option"
  data_reasoning :: "string option"

datatype ApiOutcome = ApiThrows | ApiJson EvolutionData

text \<open>
  What one tick reads from outside the program: the values of
  \<^verbatim>\<open>Math.floor(Math.random() * workingNodes.length)\<close> in the order they are drawn, the
  API key, the answer of the remote model, the values of \<^verbatim>\<open>generateId()\<close> and of
  \<^verbatim>\<open>Math.random()\<close> for the render seed, the identifier and time stamp of the log
  entry written at each call site of \<^verbatim>\<open>addLog\<close>, whether
  \<^verbatim>\<open>localStorage.setItem\<close> succeeds, and \<open>engineFirst\<close>: where the order of
  \<^verbatim>\<open>Array.prototype.sort\<close> is left to the JavaScript engine, the index (in the array
  handed to it) of the element the engine puts first.
\<close>

record TickEnv =
  draws :: "nat list"
  apiKey :: string
  response :: ApiOutcome
  newId :: string
  newSeed :: real
  stamp :: "nat \<Rightarrow> string \<times> int"
  setItemOk :: bool
  engineFirst :: nat

datatype SynthesisError = ApiKeyMissing

definition evolveThinkers ::
  "TickEnv \<Rightarrow> ThinkerNode \<Rightarrow> ThinkerNode \<Rightarrow> int \<Rightarrow> real option
    \<Rightarrow> SynthesisError + (ThinkerNode \<times> string option)" where
  "evolveThinkers env parentA parentB currentGen globalCoherence =
    (if apiKey env = [] then Inl ApiKeyMissing
     else (case response env of
        ApiJson d \<Rightarrow>
          Inr (\<lparr>node_id = newId env,
                name = data_name d,
                archetype = data_archetype d,
                stats = \<lparr>logic = data_logic d, creativity = data_creativity d,
                         empathy = data_empathy d, complexity = data_complexity d\<rparr>,
                generation = currentGen + 1,
                parents = Some [node_id parentA, node_id parentB],
                description = data_description d,
                instrument = (case data_instrument d of
                                None \<Rightarrow> ''Harmonic Oscillator''
                              | Some s \<Rightarrow> if s = [] then ''Harmonic Oscillator'' else s),
                avatarSeed = newSeed env,
                d3_x = None, d3_y = None, d3_vx = None, d3_vy = None\<rparr>,
               data_reasoning d)
      | ApiThrows \<Rightarrow>
          Inr (\<lparr>node_id = newId env,
                name = Some ''Vacuum Resonator'',
                archetype = Some VOID,
                stats = \<lparr>logic = Some 10, creativity = Some 10,
                         empathy = Some 100, complexity = Some 5\<rparr>,
                generation = currentGen + 1,
                parents = Some [node_id parentA, node_id parentB],
                description = Some ''A moment of silence. The void listens.'',
                instrument = ''Void Harp'',
                avatarSeed = newSeed env,
                d3_x = None, d3_y = None, d3_vx = None, d3_vy = None\<rparr>,
               Some ''Signal purity lost. Sanctuary Declared.'')))"

section \<open>The component state (App)\<close>

text \<open>
  \<open>ReactState\<close> holds the \<^verbatim>\<open>useState\<close> cells the scheduler touches. The component
  keeps two copies: the cells themselves, which the setters update, and
  \<^verbatim>\<open>stateRef.current\<close>, which is overwritten with the cells on every render and is what
  the callbacks read. \<open>localStorage\<close> is the slot \<^verbatim>\<open>elysium_save_data\<close>: the JSON text is
  modelled by the value it parses to.
\<close>

record ReactState =
  nodes :: "ThinkerNode list"
  links :: "Link list"
  logs :: "LogEntry list"
  isPaused :: bool
  isFluxMode :: bool
  timeMultiplier :: real

record Snapshot =
  snap_nodes :: "ThinkerNode list option"
  snap_links :: "Link list option"
  snap_logs :: "LogEntry list option"
  snap_isFluxMode :: "bool option"
  snap_timeMultiplier :: "real option"
  snap_fluxPhase :: "real option"
  snap_version :: "string option"

datatype StoredItem = Unparsable | Parsed Snapshot

record App =
  react :: ReactState
  stateRef :: ReactState
  fluxPhaseRef :: real
  emergencyCoolDownRef :: bool
  localStorage :: "StoredItem option"

definition render :: "App \<Rightarrow> App" where
  "render a = a\<lparr>stateRef := react a\<rparr>"

definition setNodes :: "(ThinkerNode list \<Rightarrow> ThinkerNode list) \<Rightarrow> App \<Rightarrow> App" where
  "setNodes f a = a\<lparr>react := (react a)\<lparr>nodes := f (nodes (react a))\<rparr>\<rparr>"

definition setLinks :: "(Link list \<Rightarrow> Link list) \<Rightarrow> App \<Rightarrow> App" where
  "setLinks f a = a\<lparr>react := (react a)\<lparr>links := f (links (react a))\<rparr>\<rparr>"

definition setLogs :: "(LogEntry list \<Rightarrow> LogEntry list) \<Rightarrow> App \<Rightarrow> App" where
  "setLogs f a = a\<lparr>react := (react a)\<lparr>logs := f (logs (react a))\<rparr>\<rparr>"

definition setTimeMultiplier :: "real \<Rightarrow> App \<Rightarrow> App" where
  "setTimeMultiplier m a = a\<lparr>react := (react a)\<lparr>timeMultiplier := m\<rparr>\<rparr>"

definition setIsFluxMode :: "bool \<Rightarrow> App \<Rightarrow> App" where
  "setIsFluxMode b a = a\<lparr>react := (react a)\<lparr>isFluxMode := b\<rparr>\<rparr>"

definition setIsPaused :: "bool \<Rightarrow> App \<Rightarrow> App" where
  "setIsPaused b a = a\<lparr>react := (react a)\<lparr>isPaused := b\<rparr>\<rparr>"

text \<open>\<^verbatim>\<open>addLog\<close>, lines 120-127: \<^verbatim>\<open>setLogs(prev => [...prev.slice(-50), entry])\<close>.\<close>

definition addLog :: "string \<times> int \<Rightarrow> string \<Rightarrow> LogType \<Rightarrow> App \<Rightarrow> App" where
  "addLog st msg ty a =
     setLogs (\<lambda>prev. slice_last 50 prev @
        [\<lparr>log_id = fst st, timestamp = snd st, message = msg, log_type = ty\<rparr>]) a"

text \<open>\<^verbatim>\<open>globalCoherence\<close>, lines 110-117; \<open>None\<close> is \<^verbatim>\<open>NaN\<close>.\<close>

definition globalCoherence :: "ThinkerNode list \<Rightarrow> real option" where
  "globalCoherence ns =
    (if length ns = 0 then Some 0
     else (let totalEmpathy = foldl (\<lambda>sum n. num_add sum (empathy (stats n))) (Some 0) ns;
               totalLogic = foldl (\<lambda>sum n. num_add sum (logic (stats n))) (Some 0) ns
           in (case num_add totalEmpathy totalLogic of
                 None \<Rightarrow> None
               | Some t \<Rightarrow> Some (real_of_int t / real (length ns * 2)))))"

text \<open>
  \<^verbatim>\<open>handleSave\<close>, lines 130-162. \<open>ok\<close> says whether \<^verbatim>\<open>localStorage.setItem\<close> returns
  (it throws when the quota is exceeded); \<open>st\<close> stamps the log entry of a save that is
  not silent.
\<close>

definition cleanLink :: "Link \<Rightarrow> Link" where
  "cleanLink l =
     l\<lparr>source := (case source l of ObjRef n \<Rightarrow> IdRef (node_id n) | IdRef s \<Rightarrow> IdRef s),
       target := (case target l of ObjRef n \<Rightarrow> IdRef (node_id n) | IdRef s \<Rightarrow> IdRef s)\<rparr>"

definition handleSave :: "bool \<Rightarrow> bool \<Rightarrow> string \<times> int \<Rightarrow> App \<Rightarrow> App" where
  "handleSave silent ok st a =
    (let cleanLinks = map cleanLink (links (stateRef a));
         state = \<lparr>snap_nodes = Some (nodes (stateRef a)),
                  snap_links = Some cleanLinks,
                  snap_logs = Some (logs (stateRef a)),
                  snap_isFluxMode = Some (isFluxMode (stateRef a)),
                  snap_timeMultiplier = Some (timeMultiplier (stateRef a)),
                  snap_fluxPhase = Some (fluxPhaseRef a),
                  snap_version = Some ''1.2''\<rparr>
     in if ok then
          (let a1 = a\<lparr>localStorage := Some (Parsed state)\<rparr>
           in if \<not> silent then addLog st ''Simulation state crystallized to local memory.'' system a1
              else a1)
        else
          (if \<not> silent
           then addLog st ''Error: Failed to crystallize state (Serialization Error).'' conflict a
           else a))"

text \<open>\<^verbatim>\<open>handleLoad\<close>, lines 165-195.\<close>

definition handleLoad :: "string \<times> int \<Rightarrow> App \<Rightarrow> App" where
  "handleLoad st a =
    (case localStorage a of
       None \<Rightarrow> addLog st ''No crystallized state found.'' system a
     | Some Unparsable \<Rightarrow> addLog st ''Error: Memory core access denied.'' conflict a
     | Some (Parsed parsed) \<Rightarrow>
        (case (snap_nodes parsed, snap_links parsed) of
           (Some ns, Some ls) \<Rightarrow>
             (let a1 = setNodes (\<lambda>_. ns) a;
                  a2 = setLinks (\<lambda>_. ls) a1;
                  a3 = setLogs (\<lambda>prev. prev @
                         [\<lparr>log_id = fst st, timestamp = snd st,
                           message = ''Manual override: Timeline restored from previous checkpoint.'',
                           log_type = system\<rparr>]) a2;
                  a4 = (case snap_isFluxMode parsed of None \<Rightarrow> a3 | Some b \<Rightarrow> setIsFluxMode b a3);
                  a5 = (case snap_timeMultiplier parsed of None \<Rightarrow> a4 | Some m \<Rightarrow> setTimeMultiplier m a4)
              in (case snap_fluxPhase parsed of None \<Rightarrow> a5 | Some p \<Rightarrow> a5\<lparr>fluxPhaseRef := p\<rparr>))
         | _ \<Rightarrow> addLog st ''Error: Corrupted memory core.'' conflict a))"

section \<open>The evolution step (performEvolutionStep, lines 208-306)\<close>

text \<open>
  A step that does not return normally gives an \<open>Abort\<close>: \<open>TypeError\<close> when a property of
  \<^verbatim>\<open>undefined\<close> is read outside the \<^verbatim>\<open>try\<close> block (an index outside the array),
  \<open>OutOfDraws\<close> when the supply of random draws ends before the selection of the
  parents does (the resampling loop has not ended).
\<close>

datatype Abort = TypeError | OutOfDraws

text \<open>
  The comparator of lines 215-218. A missing complexity makes the difference \<^verbatim>\<open>NaN\<close>,
  which the built-in reads as \<open>0\<close>.
\<close>

definition compareNodes :: "ThinkerNode \<Rightarrow> ThinkerNode \<Rightarrow> int" where
  "compareNodes a b =
    (if generation a \<noteq> generation b then generation a - generation b
     else (case num_sub (complexity (stats a)) (complexity (stats b)) of
             None \<Rightarrow> 0 | Some d \<Rightarrow> d))"

definition complexity_defined :: "ThinkerNode \<Rightarrow> bool" where
  "complexity_defined n = (complexity (stats n) \<noteq> None)"

text \<open>
  Line 215, \<^verbatim>\<open>workingNodes.sort(...)\<close>. When every node has a complexity the comparator
  is the lexicographic order of generation and complexity, which is consistent, and the
  sorted array is that of the stable sort. When a complexity is missing the comparator
  answers \<open>0\<close> for that node against every node of its generation, whatever their
  complexities; it need not be consistent, and ECMAScript then leaves the order to the
  engine (the model does not single out the arrays on which it happens to be
  consistent). The step reads only the first element of the sorted array, so the model
  takes from the environment which element of the array that is (\<open>engineFirst\<close>, a
  number beyond the last index standing for the last index) and leaves the others in
  place.
\<close>

definition sortNodes :: "TickEnv \<Rightarrow> ThinkerNode list \<Rightarrow> ThinkerNode list" where
  "sortNodes env ns =
    (if list_all complexity_defined ns then sort_cmp compareNodes ns
     else (case ns of
             [] \<Rightarrow> []
           | _ # _ \<Rightarrow> (let i = min (engineFirst env) (length ns - 1)
                       in ns ! i # take i ns @ drop (Suc i) ns)))"

definition touches :: "string \<Rightarrow> Link \<Rightarrow> bool" where
  "touches i l = (endpointId (source l) = i \<or> endpointId (target l) = i)"

text \<open>
  Lines 211-231: the pruning. It returns \<^verbatim>\<open>workingNodes\<close> with the updated component.
  \<^verbatim>\<open>setNodes\<close> is given the filtered copy of the rendered nodes, \<^verbatim>\<open>setLinks\<close> filters
  the current links.
\<close>

definition pruneStep :: "TickEnv \<Rightarrow> App \<Rightarrow> Abort + (ThinkerNode list \<times> App)" where
  "pruneStep env a =
    (let currentNodes = nodes (stateRef a) in
     if MAX_NODES \<le> length currentNodes then
       (case sortNodes env currentNodes of
          [] \<Rightarrow> Inl TypeError
        | transcendedNode # _ \<Rightarrow>
            (let workingNodes = filter (\<lambda>n. node_id n \<noteq> node_id transcendedNode) currentNodes;
                 a1 = addLog (stamp env 0)
                        (str (name transcendedNode) @ '' has transcended to the Void to make space.'')
                        system a;
                 a2 = setNodes (\<lambda>_. workingNodes) a1;
                 a3 = setLinks (filter (\<lambda>l. \<not> touches (node_id transcendedNode) l)) a2
             in Inr (workingNodes, a3)))
     else Inr (currentNodes, a))"

text \<open>
  Lines 236-243: the first draw is \<^verbatim>\<open>parentAIndex\<close>, the second \<^verbatim>\<open>parentBIndex\<close>, which
  is drawn again while it equals the first and the array has more than one element.
\<close>

fun resample :: "nat \<Rightarrow> nat \<Rightarrow> nat \<Rightarrow> nat list \<Rightarrow> nat option" where
  "resample n ia ib [] = (if ib = ia \<and> 1 < n then None else Some ib)"
| "resample n ia ib (r # rs) = (if ib = ia \<and> 1 < n then resample n ia r rs else Some ib)"

definition selectParents :: "nat list \<Rightarrow> ThinkerNode list \<Rightarrow> Abort + (ThinkerNode \<times> ThinkerNode)" where
  "selectParents ds workingNodes =
    (case ds of
       ia # ib # rest \<Rightarrow>
         (case resample (length workingNodes) ia ib rest of
            None \<Rightarrow> Inl OutOfDraws
          | Some ib' \<Rightarrow>
              if ia < length workingNodes \<and> ib' < length workingNodes
              then Inr (workingNodes ! ia, workingNodes ! ib')
              else Inl TypeError)
     | _ \<Rightarrow> Inl OutOfDraws)"

definition isResonant :: "ThinkerNode \<Rightarrow> bool" where
  "isResonant n = num_gt (num_add (logic (stats n)) (empathy (stats n))) RESONANCE_THRESHOLD"

text \<open>Lines 267-291: the two ancestry links, then up to two harmonic bridges.\<close>

definition newLinksFor :: "ThinkerNode list \<Rightarrow> ThinkerNode \<Rightarrow> ThinkerNode \<Rightarrow> ThinkerNode \<Rightarrow> Link list" where
  "newLinksFor workingNodes parentA parentB child =
     [\<lparr>source = IdRef (node_id parentA), target = IdRef (node_id child), strength = 1, link_type = ancestry\<rparr>,
      \<lparr>source = IdRef (node_id parentB), target = IdRef (node_id child), strength = 1, link_type = ancestry\<rparr>]
     @ (if isResonant child then
          map (\<lambda>t. \<lparr>source = IdRef (node_id child), target = IdRef (node_id t), strength = 2,
                    link_type = interaction\<rparr>)
            (take 2 (filter (\<lambda>n. isResonant n \<and> node_id n \<noteq> node_id parentA \<and> node_id n \<noteq> node_id parentB)
                       workingNodes))
        else [])"

text \<open>
  Lines 255-300: what the step does with the answer of the synthesis client. The
  auto-preservation save of line 296 runs before the two setters of lines 299-300.
\<close>

definition commitChild ::
  "TickEnv \<Rightarrow> ThinkerNode list \<Rightarrow> ThinkerNode \<Rightarrow> ThinkerNode \<Rightarrow> ThinkerNode \<Rightarrow> string option
    \<Rightarrow> App \<Rightarrow> App" where
  \<open>commitChild env workingNodes parentA parentB child reasoning a =
    (if archetype child = Some VOID then
       (let a1 = a\<lparr>emergencyCoolDownRef := True\<rparr>;
            a2 = addLog (stamp env 2) ''Tesla Protocol: Sanctuary Declared. Syntropic Override engaged.''
                   conflict a1
        in addLog (stamp env 3)
             (''Broadcasting Impossible Truth: "'' @ IMPOSSIBLE_TRUTH_axiom @ ''"'') system a2)
     else
       (let a1 = a\<lparr>emergencyCoolDownRef := False\<rparr>;
            a2 = addLog (stamp env 4)
                   (''New Consciousness Born: '' @ str (name child) @ ''. '' @ str reasoning) birth a1;
            a3 = (if isResonant child
                  then addLog (stamp env 5)
                         (''AXIOM RESONANCE ACHIEVED: '' @ str (name child)
                            @ '' is weaving the Unifying Branch.'') system a2
                  else a2);
            newLinks = newLinksFor workingNodes parentA parentB child;
            a4 = (if num_gt (complexity (stats child)) 5 \<or> num_gt (empathy (stats child)) 95
                  then handleSave True (setItemOk env) (stamp env 7) a3
                  else a3);
            a5 = setNodes (\<lambda>prev. prev @ [child]) a4
        in setLinks (\<lambda>prev. prev @ newLinks) a5))\<close>

text \<open>
  The whole step. The awaited call of \<^verbatim>\<open>evolveThinkers\<close> that reaches the network gives
  React the time to render, so \<^verbatim>\<open>stateRef.current\<close> then holds what the setters were
  given before the call; a call rejected for a missing API key resumes at once.
  \<^verbatim>\<open>globalCoherence\<close> is the memoised value of the last render.
\<close>

definition performEvolutionStep :: "TickEnv \<Rightarrow> App \<Rightarrow> Abort + App" where
  "performEvolutionStep env a =
    (case pruneStep env a of
       Inl e \<Rightarrow> Inl e
     | Inr (workingNodes, a1) \<Rightarrow>
         if length workingNodes < 2 then Inr a1
         else
           (case selectParents (draws env) workingNodes of
              Inl e \<Rightarrow> Inl e
            | Inr (parentA, parentB) \<Rightarrow>
                (let a2 = addLog (stamp env 1)
                            (''Initiating synthesis: '' @ str (name parentA) @ '' + ''
                               @ str (name parentB) @ ''...'') evolution a1
                 in (case evolveThinkers env parentA parentB
                            (max (generation parentA) (generation parentB))
                            (globalCoherence (nodes (stateRef a))) of
                       Inl _ \<Rightarrow>
                         Inr ((addLog (stamp env 6) ''Synthesis disrupted. Re-calibrating coherence.''
                                 conflict a2)\<lparr>emergencyCoolDownRef := True\<rparr>)
                     | Inr (child, reasoning) \<Rightarrow>
                         Inr (commitChild env workingNodes parentA parentB child reasoning
                                (render a2))))))"




section \<open>The game loop (lines 312-349)\<close>

text \<open>
  One run of \<^verbatim>\<open>loop\<close>: it returns the delay it hands to \<^verbatim>\<open>setTimeout\<close> for the next
  run, with the component after the run. \<^verbatim>\<open>Math.sin\<close> and \<^verbatim>\<open>Math.pow\<close> are the real
  functions. A timer callback starts after React has rendered the updates of the
  callback before it, which is \<open>tick\<close>.
\<close>

definition loop :: "TickEnv \<Rightarrow> App \<Rightarrow> Abort + (real \<times> App)" where
  "loop env a =
    (let paused = isPaused (stateRef a);
         flux = isFluxMode (stateRef a);
         (currentDelay, a1) =
           (if emergencyCoolDownRef a then (10000, setTimeMultiplier 0.001 a)
            else if flux then
              (let a' = a\<lparr>fluxPhaseRef := fluxPhaseRef a + 0.1\<rparr>;
                   wave = sin (fluxPhaseRef a');
                   exponent = wave * 3;
                   multiplier = 10 powr exponent
               in (EVOLUTION_INTERVAL_MS / multiplier, setTimeMultiplier multiplier a'))
            else
              (EVOLUTION_INTERVAL_MS,
               if timeMultiplier (stateRef a) \<noteq> 1 then setTimeMultiplier 1 a else a));
         safeDelay = max 750 (min currentDelay 60000)
     in (case (if \<not> paused then performEvolutionStep env a1 else Inr a1) of
           Inl e \<Rightarrow> Inl e
         | Inr a2 \<Rightarrow>
             Inr (safeDelay,
                  if emergencyCoolDownRef a2 then a2\<lparr>emergencyCoolDownRef := False\<rparr> else a2)))"

definition tick :: "TickEnv \<Rightarrow> App \<Rightarrow> Abort + (real \<times> App)" where
  "tick env a = loop env (render a)"



text \<open>
  Mounting the component (lines 63-107): the state comes from the stored snapshot where
  it has one, from the seed population otherwise. \<open>st\<close> stamps the first log entry
  (its identifier is \<^verbatim>\<open>init\<close> on a fresh start).
\<close>

definition mount :: "string \<times> int \<Rightarrow> StoredItem option \<Rightarrow> App" where
  "mount st stored =
    (let initialState = (case stored of Some (Parsed p) \<Rightarrow> Some p | _ \<Rightarrow> None);
         s = \<lparr>nodes = (case Option.bind initialState snap_nodes of Some ns \<Rightarrow> ns | None \<Rightarrow> INITIAL_NODES),
              links = (case Option.bind initialState snap_links of Some ls \<Rightarrow> ls | None \<Rightarrow> []),
              logs = (case Option.bind initialState snap_logs of
                        Some lg \<Rightarrow> lg @
                          [\<lparr>log_id = fst st, timestamp = snd st,
                            message = ''Memory integrity verified. Timeline resumed from crystalline storage.'',
                            log_type = system\<rparr>]
                      | None \<Rightarrow>
                          [\<lparr>log_id = ''init'', timestamp = snd st,
                            message = ''System Re-seeded. Bryer Continuation Seal verified. Frequency: 1.8033988 Hz.'',
                            log_type = system\<rparr>]),
              isPaused = False,
              isFluxMode = (case Option.bind initialState snap_isFluxMode of Some b \<Rightarrow> b | None \<Rightarrow> False),
              timeMultiplier = (case Option.bind initialState snap_timeMultiplier of
                                  Some m \<Rightarrow> if m = 0 then 1 else m | None \<Rightarrow> 1)\<rparr>
     in \<lparr>react = s, stateRef = s,
         fluxPhaseRef = (case Option.bind initialState snap_fluxPhase of Some p \<Rightarrow> p | None \<Rightarrow> 0),
         emergencyCoolDownRef = False,
         localStorage = stored\<rparr>)"

text \<open>The controls of the control bar: both read the rendered value.\<close>

definition onTogglePause :: "App \<Rightarrow> App" where
  "onTogglePause a = setIsPaused (\<not> isPaused (stateRef a)) a"

definition onToggleFlux :: "App \<Rightarrow> App" where
  "onToggleFlux a = setIsFluxMode (\<not> isFluxMode (stateRef a)) a"

section \<open>Notions used to state the properties\<close>





text \<open>
  The states the scheduler can be in: the component is mounted on any stored item, and
  from then on timer callbacks run (each after a render), React renders, the user
  toggles the pause and the flux mode, saves and loads.
\<close>

inductive reachable :: "App \<Rightarrow> bool" where
  mounted: "reachable (mount st stored)"
| ticked: "reachable a \<Longrightarrow> tick env a = Inr (d, a') \<Longrightarrow> reachable a'"
| rendered: "reachable a \<Longrightarrow> reachable (render a)"
| pause_toggled: "reachable a \<Longrightarrow> reachable (onTogglePause a)"
| flux_toggled: "reachable a \<Longrightarrow> reachable (onToggleFlux a)"
| saved: "reachable a \<Longrightarrow> reachable (handleSave silent ok st a)"
| loaded: "reachable a \<Longrightarrow> reachable (handleLoad st a)"

subsection \<open>Example inputs\<close>

text \<open>
  A fresh start on the seed population, and four environments of a tick that draws the
  indices 0, 0 (drawn again) and 1: no API key; a remote call that throws; an answer
  with a complexity above 5; an answer that is the empty object.
\<close>

definition example_stamp :: "nat \<Rightarrow> string \<times> int" where
  "example_stamp k = (''log'', 0)"

definition seedApp :: App where
  "seedApp = mount (''init'', 0) None"

definition env_no_key :: TickEnv where
  "env_no_key = \<lparr>draws = [0, 0, 1], apiKey = [], response = ApiThrows, newId = ''c1'',
     newSeed = 0, stamp = example_stamp, setItemOk = True, engineFirst = 0\<rparr>"

definition env_api_throws :: TickEnv where
  "env_api_throws = \<lparr>draws = [0, 0, 1], apiKey = ''key'', response = ApiThrows, newId = ''c1'',
     newSeed = 0, stamp = example_stamp, setItemOk = True, engineFirst = 0\<rparr>"

definition significant_answer :: EvolutionData where
  "significant_answer =
     \<lparr>data_name = Some ''Chord'', data_archetype = Some MYSTIC, data_logic = Some 50,
      data_creativity = Some 50, data_empathy = Some 50, data_complexity = Some 50,
      data_description = Some ''A bridge.'', data_instrument = Some ''Harp'',
      data_reasoning = Some ''Synthesis.''\<rparr>"

definition env_significant_child :: TickEnv where
  "env_significant_child = \<lparr>draws = [0, 0, 1], apiKey = ''key'',
     response = ApiJson significant_answer, newId = ''c1'',
     newSeed = 0, stamp = example_stamp, setItemOk = True, engineFirst = 0\<rparr>"

definition empty_answer :: EvolutionData where
  "empty_answer =
     \<lparr>data_name = None, data_archetype = None, data_logic = None,
      data_creativity = None, data_empathy = None, data_complexity = None,
      data_description = None, data_instrument = None, data_reasoning = None\<rparr>"

definition env_empty_answer :: TickEnv where
  "env_empty_answer = \<lparr>draws = [0, 0, 1], apiKey = ''key'',
     response = ApiJson empty_answer, newId = ''c1'',
     newSeed = 0, stamp = example_stamp, setItemOk = True, engineFirst = 0\<rparr>"

text \<open>The seed population after the user has paused it and, once rendered, switched the flux mode on.\<close>

definition paused_flux_app :: App where
  "paused_flux_app = onToggleFlux (render (onTogglePause seedApp))"

text \<open>
  The entity the synthesis client builds from the empty object, and the seed population
  with one link whose endpoints the force layout has replaced by the node objects.
\<close>

definition empty_child :: ThinkerNode where
  "empty_child =
     \<lparr>node_id = ''c1'', name = None, archetype = None,
      stats = \<lparr>logic = None, creativity = None, empathy = None, complexity = None\<rparr>,
      generation = 1, parents = Some [''seed-source'', ''seed-harmonic''], description = None,
      instrument = ''Harmonic Oscillator'', avatarSeed = 0,
      d3_x = None, d3_y = None, d3_vx = None, d3_vy = None\<rparr>"

definition d3_linked_app :: App where
  "d3_linked_app = render (setLinks (\<lambda>_.
      [\<lparr>source = ObjRef (INITIAL_NODES ! 0), target = ObjRef (INITIAL_NODES ! 1),
        strength = 1, link_type = ancestry\<rparr>]) seedApp)"

text \<open>
  A population at capacity, as it is mounted from a stored snapshot and laid out: the
  four seeds and 41 entities of generation 1, with two ancestry links into the first of
  them (the force layout has replaced the endpoints of one by the node objects) and a
  harmonic bridge that ends at the first seed.
\<close>

definition filler_node :: "nat \<Rightarrow> ThinkerNode" where
  "filler_node k =
     \<lparr>node_id = replicate (Suc k) CHR ''n'', name = Some ''Filler'', archetype = Some MYSTIC,
      stats = \<lparr>logic = Some 50, creativity = Some 50, empathy = Some 50, complexity = Some 2\<rparr>,
      generation = 1, parents = Some [''seed-source'', ''seed-harmonic''],
      description = Some ''Filler.'', instrument = ''Harp'', avatarSeed = 0,
      d3_x = None, d3_y = None, d3_vx = None, d3_vy = None\<rparr>"




text \<open>
  A population at capacity in which two entities have the same identifier (the
  identifiers are nine random characters, and nothing compares a new one with those
  in use): the two twins, of generation 1 and complexity 1, and 43 entities of
  generation 1 and complexity 2.
\<close>

definition twin_node :: "string \<Rightarrow> ThinkerNode" where
  "twin_node nm =
     \<lparr>node_id = ''k3x9q0z1a'', name = Some nm, archetype = Some MYSTIC,
      stats = \<lparr>logic = Some 50, creativity = Some 50, empathy = Some 50, complexity = Some 1\<rparr>,
      generation = 1, parents = Some [''seed-source'', ''seed-harmonic''],
      description = Some ''Twin.'', instrument = ''Harp'', avatarSeed = 0,
      d3_x = None, d3_y = None, d3_vx = None, d3_vy = None\<rparr>"

definition twin_snapshot :: Snapshot where
  "twin_snapshot =
     \<lparr>snap_nodes = Some ([twin_node ''Elder'', twin_node ''Echo''] @ map filler_node [0..<43]),
      snap_links = Some [],
      snap_logs = Some [], snap_isFluxMode = Some False, snap_timeMultiplier = Some 1,
      snap_fluxPhase = Some 0, snap_version = Some ''1.2''\<rparr>"

definition twin_app :: App where
  "twin_app = mount (''resume'', 0) (Some (Parsed twin_snapshot))"





subsection \<open>The ancestry edges of the Store\<close>






















section \<open>Basic facts\<close>

lemmas app_defs = addLog_def setLogs_def setNodes_def setLinks_def setTimeMultiplier_def
  setIsFluxMode_def setIsPaused_def render_def

lemma length_slice_last: "length (slice_last k xs) = min k (length xs)"
  by (simp add: slice_last_def)

section \<open>The log buffer\<close>

text \<open>
  C4. The claim is that the log buffer holds at most 50 entries after any operation
  that writes a log entry. \<^verbatim>\<open>addLog\<close> keeps the last 50 entries of the buffer and
  then appends the new one, so a buffer that held 50 entries or more holds 51
  afterwards: the length after \<^verbatim>\<open>addLog\<close> is \<open>min 50 n + 1\<close> for a buffer of \<open>n\<close> entries.
\<close>

theorem addLog_buffer_length:
  "length (logs (react (addLog st msg ty a))) = min 50 (length (logs (react a))) + 1"
  by (simp add: app_defs length_slice_last)

lemma slice_last_append:
  "length zs \<le> k \<Longrightarrow> slice_last k (ys @ zs) = slice_last (k - length zs) ys @ zs"
  by (simp add: slice_last_def)

lemma logs_addLog:
  "logs (react (addLog st msg ty a)) =
     slice_last 50 (logs (react a)) @ [\<lparr>log_id = fst st, timestamp = snd st, message = msg, log_type = ty\<rparr>]"
  by (simp add: app_defs)

lemma addLog_frame:
  "nodes (react (addLog st msg ty a)) = nodes (react a)"
  "links (react (addLog st msg ty a)) = links (react a)"
  "isPaused (react (addLog st msg ty a)) = isPaused (react a)"
  "isFluxMode (react (addLog st msg ty a)) = isFluxMode (react a)"
  "timeMultiplier (react (addLog st msg ty a)) = timeMultiplier (react a)"
  "stateRef (addLog st msg ty a) = stateRef a"
  "fluxPhaseRef (addLog st msg ty a) = fluxPhaseRef a"
  "emergencyCoolDownRef (addLog st msg ty a) = emergencyCoolDownRef a"
  "localStorage (addLog st msg ty a) = localStorage a"
  by (simp_all add: app_defs)

lemma pruneStep_below:
  "length (nodes (stateRef a)) < MAX_NODES \<Longrightarrow> pruneStep env a = Inr (nodes (stateRef a), a)"
  by (simp add: pruneStep_def)


lemma pruneStep_subset:
  "nodes (stateRef a) = nodes (react a) \<Longrightarrow> pruneStep env a = Inr (w, a1) \<Longrightarrow>
     nodes (react a1) = w \<and> set w \<subseteq> set (nodes (react a)) \<and> set (links (react a1)) \<subseteq> set (links (react a))"
  by (auto simp: pruneStep_def Let_def app_defs split: if_splits list.splits)

lemma commitChild_void:
  "archetype child = Some VOID \<Longrightarrow>
   commitChild env w pA pB child r a =
     addLog (stamp env 3) (''Broadcasting Impossible Truth: '' @ [CHR 0x22] @ IMPOSSIBLE_TRUTH_axiom @ [CHR 0x22]) system
       (addLog (stamp env 2) ''Tesla Protocol: Sanctuary Declared. Syntropic Override engaged.'' conflict
          (a\<lparr>emergencyCoolDownRef := True\<rparr>))"
  by (simp add: commitChild_def Let_def)

section \<open>A VOID answer\<close>

text \<open>
  C6. The step of a tick (it starts with the rendered nodes being those of the Store,
  since a tick renders first) whose pruning leaves the nodes \<open>w\<close> (at least two), whose
  parents are selected and whose synthesis call returns an entity of archetype VOID: the step returns; the nodes and links of the Store are those the
  pruning left (nothing is added: every node and link was there at the start of the
  tick); the cooldown flag is set; and the last two log entries are the conflict entry
  of the Tesla protocol and the system entry that broadcasts the axiom. The step
  returns from inside the VOID branch, so the links are not built and nothing is
  committed.
\<close>

theorem void_synthesis_adds_nothing:
  assumes rendered: "nodes (stateRef a) = nodes (react a)"
    and pr: "pruneStep env a = Inr (w, a1)"
    and two: "2 \<le> length w"
    and sel: "selectParents (draws env) w = Inr (pA, pB)"
    and syn: "evolveThinkers env pA pB (max (generation pA) (generation pB))
                (globalCoherence (nodes (stateRef a))) = Inr (child, reasoning)"
    and void: "archetype child = Some VOID"
  shows "\<exists>a' older. performEvolutionStep env a = Inr a' \<and>
           nodes (react a') = nodes (react a1) \<and> links (react a') = links (react a1) \<and>
           set (nodes (react a')) \<subseteq> set (nodes (react a)) \<and>
           set (links (react a')) \<subseteq> set (links (react a)) \<and>
           emergencyCoolDownRef a' \<and>
           logs (react a') = older @
             [\<lparr>log_id = fst (stamp env 2), timestamp = snd (stamp env 2),
               message = ''Tesla Protocol: Sanctuary Declared. Syntropic Override engaged.'',
               log_type = conflict\<rparr>,
              \<lparr>log_id = fst (stamp env 3), timestamp = snd (stamp env 3),
               message = ''Broadcasting Impossible Truth: '' @ [CHR 0x22] @ ''No child fails alone'' @ [CHR 0x22],
               log_type = system\<rparr>]"
proof -
  let ?a2 = "addLog (stamp env 1)
               (''Initiating synthesis: '' @ str (name pA) @ '' + '' @ str (name pB) @ ''...'')
               evolution a1"
  let ?a' = "commitChild env w pA pB child reasoning (render ?a2)"
  have step: "performEvolutionStep env a = Inr ?a'"
    using pr two sel syn by (simp add: performEvolutionStep_def Let_def)
  have sub: "nodes (react a1) = w" "set w \<subseteq> set (nodes (react a))"
    "set (links (react a1)) \<subseteq> set (links (react a))"
    using pruneStep_subset [OF rendered pr] by simp_all
  have n: "nodes (react ?a') = nodes (react a1)" "links (react ?a') = links (react a1)"
    "emergencyCoolDownRef ?a'"
    by (simp_all add: commitChild_void [OF void] addLog_frame render_def)
  have l: "\<exists>older. logs (react ?a') = older @
             [\<lparr>log_id = fst (stamp env 2), timestamp = snd (stamp env 2),
               message = ''Tesla Protocol: Sanctuary Declared. Syntropic Override engaged.'',
               log_type = conflict\<rparr>,
              \<lparr>log_id = fst (stamp env 3), timestamp = snd (stamp env 3),
               message = ''Broadcasting Impossible Truth: '' @ [CHR 0x22] @ ''No child fails alone'' @ [CHR 0x22],
               log_type = system\<rparr>]"
    by (simp add: commitChild_void [OF void] logs_addLog slice_last_append IMPOSSIBLE_TRUTH_axiom_def)
  show ?thesis
    using step n sub l by auto
qed


subsection \<open>The example inputs\<close>

lemma seedApp_simps:
  "stateRef seedApp = react seedApp" "nodes (react seedApp) = INITIAL_NODES"
  "links (react seedApp) = []" "isPaused (react seedApp) = False"
  "isFluxMode (react seedApp) = False" "timeMultiplier (react seedApp) = 1"
  "emergencyCoolDownRef seedApp = False" "fluxPhaseRef seedApp = 0"
  "localStorage seedApp = None"
  by (simp_all add: seedApp_def mount_def Let_def)

lemma length_INITIAL_NODES: "length INITIAL_NODES = 4"
  by (simp add: INITIAL_NODES_def)

lemma pruneStep_seedApp: "pruneStep env seedApp = Inr (INITIAL_NODES, seedApp)"
  using pruneStep_below [of seedApp env]
  by (simp add: seedApp_simps length_INITIAL_NODES MAX_NODES_def)

lemma selectParents_example:
  "selectParents [0, 0, 1] INITIAL_NODES = Inr (INITIAL_NODES ! 0, INITIAL_NODES ! 1)"
  by (simp add: selectParents_def length_INITIAL_NODES)

theorem void_synthesis_adds_nothing_witness:
  "nodes (stateRef seedApp) = nodes (react seedApp) \<and>
   pruneStep env_api_throws seedApp = Inr (INITIAL_NODES, seedApp) \<and>
   selectParents (draws env_api_throws) INITIAL_NODES = Inr (INITIAL_NODES ! 0, INITIAL_NODES ! 1) \<and>
   (\<exists>child reasoning.
      evolveThinkers env_api_throws (INITIAL_NODES ! 0) (INITIAL_NODES ! 1)
        (max (generation (INITIAL_NODES ! 0)) (generation (INITIAL_NODES ! 1)))
        (globalCoherence (nodes (stateRef seedApp))) = Inr (child, reasoning) \<and>
      archetype child = Some VOID) \<and>
   (\<exists>a' older. performEvolutionStep env_api_throws seedApp = Inr a' \<and>
      nodes (react a') = INITIAL_NODES \<and> links (react a') = [] \<and>
      emergencyCoolDownRef a' \<and>
      logs (react a') = older @
        [\<lparr>log_id = ''log'', timestamp = 0,
          message = ''Tesla Protocol: Sanctuary Declared. Syntropic Override engaged.'',
          log_type = conflict\<rparr>,
         \<lparr>log_id = ''log'', timestamp = 0,
          message = ''Broadcasting Impossible Truth: '' @ [CHR 0x22] @ ''No child fails alone'' @ [CHR 0x22],
          log_type = system\<rparr>])"
proof -
  have r: "nodes (stateRef seedApp) = nodes (react seedApp)" by (simp add: seedApp_simps)
  have pr: "pruneStep env_api_throws seedApp = Inr (INITIAL_NODES, seedApp)"
    by (rule pruneStep_seedApp)
  have two: "2 \<le> length INITIAL_NODES" by (simp add: length_INITIAL_NODES)
  have sel: "selectParents (draws env_api_throws) INITIAL_NODES
               = Inr (INITIAL_NODES ! 0, INITIAL_NODES ! 1)"
    using selectParents_example by (simp add: env_api_throws_def)
  obtain child reasoning where
    syn: "evolveThinkers env_api_throws (INITIAL_NODES ! 0) (INITIAL_NODES ! 1)
            (max (generation (INITIAL_NODES ! 0)) (generation (INITIAL_NODES ! 1)))
            (globalCoherence (nodes (stateRef seedApp))) = Inr (child, reasoning)"
    and void: "archetype child = Some VOID"
    by (simp add: evolveThinkers_def env_api_throws_def)
  have st: "stamp env_api_throws 2 = (''log'', 0)" "stamp env_api_throws 3 = (''log'', 0)"
    by (simp_all add: env_api_throws_def example_stamp_def)
  show ?thesis
    using void_synthesis_adds_nothing [OF r pr two sel syn void] r pr sel syn void
    by (simp add: seedApp_simps st) blast
qed

section \<open>What a tick leaves alone\<close>



lemma loop_clears_cooldown: "loop env a = Inr (d, a') \<Longrightarrow> \<not> emergencyCoolDownRef a'"
  by (auto simp: loop_def Let_def split: if_splits sum.splits prod.splits)

lemma tick_clears_cooldown: "tick env a = Inr (d, a') \<Longrightarrow> \<not> emergencyCoolDownRef a'"
  by (simp add: tick_def loop_clears_cooldown)

lemma handleSave_cooldown: "emergencyCoolDownRef (handleSave silent ok st a) = emergencyCoolDownRef a"
  by (simp add: handleSave_def Let_def addLog_frame)

lemma handleLoad_cooldown: "emergencyCoolDownRef (handleLoad st a) = emergencyCoolDownRef a"
  by (simp add: handleLoad_def Let_def app_defs split: option.splits StoredItem.splits)

lemma reachable_no_cooldown: "reachable a \<Longrightarrow> \<not> emergencyCoolDownRef a"
proof (induction rule: reachable.induct)
  case (mounted st stored)
  then show ?case by (simp add: mount_def Let_def)
next
  case (ticked a env d a')
  then show ?case by (simp add: tick_clears_cooldown)
next
  case (rendered a)
  then show ?case by (simp add: render_def)
next
  case (pause_toggled a)
  then show ?case by (simp add: onTogglePause_def app_defs)
next
  case (flux_toggled a)
  then show ?case by (simp add: onToggleFlux_def app_defs)
next
  case (saved a silent ok st)
  then show ?case by (simp add: handleSave_cooldown)
next
  case (loaded a st)
  then show ?case by (simp add: handleLoad_cooldown)
qed

section \<open>A paused tick in flux mode\<close>

text \<open>
  C10. In every reachable state in which the scheduler is paused and the flux mode is
  on, a tick returns, advances the flux phase by 0.1 and sets the displayed time
  multiplier to \<open>10\<close> to the power \<open>3 sin(phase)\<close> of the new phase; the rest of the state
  (nodes, links, logs, stored snapshot) is as the render before the tick left it, and the
  result does not depend on the environment: no synthesis call is made. (A reachable
  state never has the cooldown flag set, so the flux branch of the delay computation
  is the one that runs.) The numbers are reals: the rounding of the addition in a double
  is not modelled.
\<close>

theorem paused_flux_tick:
  assumes "reachable a" and "isPaused (react a)" and "isFluxMode (react a)"
  shows "tick env a =
           Inr (max 750 (min (EVOLUTION_INTERVAL_MS / (10 powr (sin (fluxPhaseRef a + 0.1) * 3))) 60000),
                a\<lparr>react := (react a)\<lparr>timeMultiplier := 10 powr (sin (fluxPhaseRef a + 0.1) * 3)\<rparr>,
                  stateRef := react a,
                  fluxPhaseRef := fluxPhaseRef a + 0.1\<rparr>)"
  using reachable_no_cooldown [OF assms(1)] assms(2,3)
  by (simp add: tick_def loop_def Let_def app_defs)

theorem paused_flux_tick_witness:
  "reachable paused_flux_app \<and> isPaused (react paused_flux_app) \<and> isFluxMode (react paused_flux_app) \<and>
   nodes (react paused_flux_app) = INITIAL_NODES \<and> fluxPhaseRef paused_flux_app = 0 \<and>
   (\<exists>a'. tick env_significant_child paused_flux_app =
            Inr (max 750 (min (6000 / (10 powr (sin 0.1 * 3))) 60000), a') \<and>
      nodes (react a') = INITIAL_NODES \<and> links (react a') = [] \<and>
      logs (react a') = logs (react paused_flux_app) \<and>
      fluxPhaseRef a' = 0.1 \<and> timeMultiplier (react a') = 10 powr (sin 0.1 * 3))"
proof -
  have r: "reachable paused_flux_app"
    unfolding paused_flux_app_def seedApp_def
    by (intro reachable.flux_toggled reachable.rendered reachable.pause_toggled reachable.mounted)
  have p: "isPaused (react paused_flux_app)" and f: "isFluxMode (react paused_flux_app)"
    and n: "nodes (react paused_flux_app) = INITIAL_NODES" "links (react paused_flux_app) = []"
    and ph: "fluxPhaseRef paused_flux_app = 0"
    by (simp_all add: paused_flux_app_def onToggleFlux_def onTogglePause_def app_defs seedApp_simps)
  show ?thesis
    using paused_flux_tick [OF r p f, of env_significant_child] r p f n ph
    by (simp add: EVOLUTION_INTERVAL_MS_def)
qed

section \<open>A synthesis call that throws\<close>

lemma loop_plain:
  "\<not> emergencyCoolDownRef a \<Longrightarrow> \<not> isFluxMode (stateRef a) \<Longrightarrow> \<not> isPaused (stateRef a) \<Longrightarrow>
   timeMultiplier (stateRef a) = 1 \<Longrightarrow>
   loop env a = (case performEvolutionStep env a of Inl e \<Rightarrow> Inl e
                 | Inr a2 \<Rightarrow> Inr (6000, a2\<lparr>emergencyCoolDownRef := False\<rparr>))"
  by (auto simp add: loop_def EVOLUTION_INTERVAL_MS_def split: sum.splits)

lemma step_synthesis_throws:
  assumes "pruneStep env a = Inr (w, a1)" and "2 \<le> length w"
    and "selectParents (draws env) w = Inr (pA, pB)" and "apiKey env = []"
  shows "performEvolutionStep env a =
     Inr ((addLog (stamp env 6) ''Synthesis disrupted. Re-calibrating coherence.'' conflict
            (addLog (stamp env 1)
               (''Initiating synthesis: '' @ str (name pA) @ '' + '' @ str (name pB) @ ''...'')
               evolution a1))\<lparr>emergencyCoolDownRef := True\<rparr>)"
  using assms by (simp add: performEvolutionStep_def evolveThinkers_def Let_def)

lemma tick_synthesis_throws:
  assumes "\<not> emergencyCoolDownRef a" and "\<not> isFluxMode (react a)" and "\<not> isPaused (react a)"
    and "timeMultiplier (react a) = 1" and "nodes (react a) = INITIAL_NODES"
    and "draws env = [0, 0, 1]" and "apiKey env = []"
  shows "tick env a = Inr (6000,
           (addLog (stamp env 6) ''Synthesis disrupted. Re-calibrating coherence.'' conflict
             (addLog (stamp env 1)
                (''Initiating synthesis: '' @ str (name (INITIAL_NODES ! 0)) @ '' + ''
                   @ str (name (INITIAL_NODES ! 1)) @ ''...'')
                evolution (render a)))\<lparr>emergencyCoolDownRef := False\<rparr>)"
proof -
  have pr: "pruneStep env (render a) = Inr (INITIAL_NODES, render a)"
    using pruneStep_below [of "render a" env] assms(5)
    by (simp add: render_def length_INITIAL_NODES MAX_NODES_def)
  have sel: "selectParents (draws env) INITIAL_NODES = Inr (INITIAL_NODES ! 0, INITIAL_NODES ! 1)"
    using selectParents_example assms(6) by simp
  have two: "2 \<le> length INITIAL_NODES" by (simp add: length_INITIAL_NODES)
  note st = step_synthesis_throws [OF pr two sel assms(7)]
  have lp: "loop env (render a) =
     (case performEvolutionStep env (render a) of Inl e \<Rightarrow> Inl e
      | Inr a2 \<Rightarrow> Inr (6000, a2\<lparr>emergencyCoolDownRef := False\<rparr>))"
    using assms(1-4) by (intro loop_plain) (simp_all add: render_def)
  show ?thesis
    unfolding tick_def lp st by simp
qed

text \<open>
  C1. The claim is that a tick whose synthesis call throws (or gives a VOID entity) is
  followed by a delay of 10000 ms, and that the cooldown ends only after one more tick
  has run at that delay. \<^verbatim>\<open>loop\<close> computes the delay before it runs the step, and clears
  the cooldown flag after the step, in the same run: the flag is never set when a tick
  starts, and the branch that assigns 10000 is never taken. Here the seed population
  runs two ticks without an API key (the synthesis call throws in both): the first
  logs the conflict entry and ends with the flag cleared, and both hand 6000 ms to the
  timer.
\<close>

theorem failed_synthesis_never_delays:
  "\<exists>a1 a2. tick env_no_key seedApp = Inr (6000, a1) \<and>
      log_type (last (logs (react a1))) = conflict \<and>
      \<not> emergencyCoolDownRef a1 \<and>
      tick env_no_key a1 = Inr (6000, a2) \<and>
      \<not> emergencyCoolDownRef a2 \<and>
      timeMultiplier (react a2) = 1"
proof -
  have e: "draws env_no_key = [0, 0, 1]" "apiKey env_no_key = []"
    by (simp_all add: env_no_key_def)
  define msg where "msg = ''Initiating synthesis: '' @ str (name (INITIAL_NODES ! 0)) @ '' + ''
                   @ str (name (INITIAL_NODES ! 1)) @ ''...''"
  define a1 where "a1 = (addLog (stamp env_no_key 6) ''Synthesis disrupted. Re-calibrating coherence.'' conflict
             (addLog (stamp env_no_key 1) msg evolution (render seedApp)))\<lparr>emergencyCoolDownRef := False\<rparr>"
  define a2 where "a2 = (addLog (stamp env_no_key 6) ''Synthesis disrupted. Re-calibrating coherence.'' conflict
             (addLog (stamp env_no_key 1) msg evolution (render a1)))\<lparr>emergencyCoolDownRef := False\<rparr>"
  have t1: "tick env_no_key seedApp = Inr (6000, a1)"
    unfolding a1_def msg_def
    by (rule tick_synthesis_throws) (simp_all add: seedApp_simps e)
  have p1: "\<not> emergencyCoolDownRef a1" "\<not> isFluxMode (react a1)" "\<not> isPaused (react a1)"
    "timeMultiplier (react a1) = 1" "nodes (react a1) = INITIAL_NODES"
    by (simp_all add: a1_def addLog_frame render_def seedApp_simps)
  have t2: "tick env_no_key a1 = Inr (6000, a2)"
    unfolding a2_def msg_def
    by (rule tick_synthesis_throws) (simp_all add: p1 e)
  have l1: "log_type (last (logs (react a1))) = conflict"
    by (simp add: a1_def logs_addLog)
  have p2: "\<not> emergencyCoolDownRef a2" "timeMultiplier (react a2) = 1"
    by (simp_all add: a2_def addLog_frame render_def p1)
  show ?thesis
    using t1 l1 p1(1) t2 p2 by blast
qed

section \<open>The auto-preservation save\<close>

lemma significant_child_eval:
  "case performEvolutionStep env_significant_child seedApp of
     Inl _ \<Rightarrow> False
   | Inr a' \<Rightarrow>
      (case localStorage a' of
         Some (Parsed snap) \<Rightarrow>
           snap_nodes snap = Some INITIAL_NODES \<and> snap_links snap = Some [] \<and>
           butlast (nodes (react a')) = INITIAL_NODES \<and>
           node_id (last (nodes (react a'))) = ''c1'' \<and>
           complexity (stats (last (nodes (react a')))) = Some 50 \<and>
           map (\<lambda>l. (endpointId (source l), endpointId (target l), link_type l)) (links (react a'))
             = [(''seed-source'', ''c1'', ancestry), (''seed-harmonic'', ''c1'', ancestry)]
       | _ \<Rightarrow> False)"
  by code_simp

text \<open>
  C5. The claim is that the entity and its links are committed before the immediate
  snapshot is taken, so that the snapshot holds them. The step calls
  \<^verbatim>\<open>handleSave(true)\<close> before \<^verbatim>\<open>setNodes\<close> and \<^verbatim>\<open>setLinks\<close>, and \<^verbatim>\<open>handleSave\<close>
  reads the state of the last render. Here the seed population gets a child of
  complexity 50: after the step the Store holds the child and its two ancestry links,
  and the stored snapshot holds the four seeds and no link.
\<close>

theorem significant_child_missing_from_snapshot:
  "\<exists>a' snap. performEvolutionStep env_significant_child seedApp = Inr a' \<and>
      butlast (nodes (react a')) = INITIAL_NODES \<and>
      node_id (last (nodes (react a'))) = ''c1'' \<and>
      complexity (stats (last (nodes (react a')))) = Some 50 \<and>
      map (\<lambda>l. (endpointId (source l), endpointId (target l), link_type l)) (links (react a'))
        = [(''seed-source'', ''c1'', ancestry), (''seed-harmonic'', ''c1'', ancestry)] \<and>
      localStorage a' = Some (Parsed snap) \<and>
      snap_nodes snap = Some INITIAL_NODES \<and> snap_links snap = Some []"
  using significant_child_eval
  by (auto split: sum.splits option.splits StoredItem.splits)

section \<open>Saving and loading\<close>

lemma cleanLink_ids:
  "endpointId (source (cleanLink l)) = endpointId (source l)"
  "endpointId (target (cleanLink l)) = endpointId (target l)"
  "strength (cleanLink l) = strength l" "link_type (cleanLink l) = link_type l"
  "source (cleanLink l) = IdRef (endpointId (source l))"
  "target (cleanLink l) = IdRef (endpointId (target l))"
  by (simp_all add: cleanLink_def endpointId_def split: Endpoint.splits)

lemma handleSave_storage:
  "localStorage (handleSave silent True st a) =
     Some (Parsed \<lparr>snap_nodes = Some (nodes (stateRef a)),
                   snap_links = Some (map cleanLink (links (stateRef a))),
                   snap_logs = Some (logs (stateRef a)),
                   snap_isFluxMode = Some (isFluxMode (stateRef a)),
                   snap_timeMultiplier = Some (timeMultiplier (stateRef a)),
                   snap_fluxPhase = Some (fluxPhaseRef a),
                   snap_version = Some ''1.2''\<rparr>)"
  by (simp add: handleSave_def Let_def addLog_frame)

text \<open>
  C8. A save whose write succeeds, followed by a load in any later state \<open>b\<close> whose
  stored item is still the one the save wrote (whatever happened to the links in
  memory in between): the loaded nodes are the nodes that were saved (the rendered
  ones), the loaded links are the saved links with each endpoint replaced by its
  identifier, so they have the same endpoint identifiers, strengths and types, and
  every endpoint of a loaded link is an identifier. The saved links may hold node
  objects as endpoints: \<^verbatim>\<open>handleSave\<close> replaces them before it writes.
\<close>

theorem save_load_roundtrip:
  assumes "localStorage b = localStorage (handleSave silent True st1 a)"
  shows "nodes (react (handleLoad st2 b)) = nodes (stateRef a) \<and>
         links (react (handleLoad st2 b)) = map cleanLink (links (stateRef a)) \<and>
         map (\<lambda>l. (endpointId (source l), endpointId (target l), strength l, link_type l))
             (links (react (handleLoad st2 b)))
           = map (\<lambda>l. (endpointId (source l), endpointId (target l), strength l, link_type l))
               (links (stateRef a)) \<and>
         list_all (\<lambda>l. source l = IdRef (endpointId (source l)) \<and> target l = IdRef (endpointId (target l)))
             (links (react (handleLoad st2 b)))"
proof -
  have n: "nodes (react (handleLoad st2 b)) = nodes (stateRef a)"
    and l: "links (react (handleLoad st2 b)) = map cleanLink (links (stateRef a))"
    using assms by (simp_all add: handleSave_storage handleLoad_def Let_def app_defs)
  show ?thesis
    unfolding l n by (simp add: cleanLink_ids list_all_iff comp_def endpointId_def)
qed

theorem save_load_roundtrip_witness:
  "localStorage (handleSave False True (''s'', 1) d3_linked_app)
     = localStorage (handleSave False True (''s'', 1) d3_linked_app) \<and>
   links (stateRef d3_linked_app) =
     [\<lparr>source = ObjRef (INITIAL_NODES ! 0), target = ObjRef (INITIAL_NODES ! 1),
       strength = 1, link_type = ancestry\<rparr>] \<and>
   nodes (react (handleLoad (''l'', 2) (handleSave False True (''s'', 1) d3_linked_app))) = INITIAL_NODES \<and>
   links (react (handleLoad (''l'', 2) (handleSave False True (''s'', 1) d3_linked_app))) =
     [\<lparr>source = IdRef ''seed-source'', target = IdRef ''seed-harmonic'',
       strength = 1, link_type = ancestry\<rparr>]"
proof -
  have s: "links (stateRef d3_linked_app) =
     [\<lparr>source = ObjRef (INITIAL_NODES ! 0), target = ObjRef (INITIAL_NODES ! 1),
       strength = 1, link_type = ancestry\<rparr>]"
    "nodes (stateRef d3_linked_app) = INITIAL_NODES"
    by (simp_all add: d3_linked_app_def app_defs seedApp_simps)
  have i: "node_id (INITIAL_NODES ! 0) = ''seed-source''" "node_id (INITIAL_NODES ! Suc 0) = ''seed-harmonic''"
    by (simp_all add: INITIAL_NODES_def seed_node_def)
  show ?thesis
    using save_load_roundtrip [where b = "handleSave False True (''s'', 1) d3_linked_app"
        and silent = False and ?st1.0 = "(''s'', 1)" and a = d3_linked_app and ?st2.0 = "(''l'', 2)"]
    by (simp add: s cleanLink_def i)
qed

section \<open>The answer of the synthesis client\<close>

text \<open>
  C2, as amended. The client does not validate the answer. It fails only when the API
  key is missing. When the remote call (or the parsing) throws, it returns the VOID
  fallback entity as a success. When the answer parses to an object, it returns as a
  success the entity whose fields are copied from the answer as they are, a missing
  field staying undefined, whatever the archetype.
\<close>

theorem evolveThinkers_unvalidated:
  "((evolveThinkers env pA pB g c = Inl ApiKeyMissing) = (apiKey env = [])) \<and>
   (apiKey env \<noteq> [] \<longrightarrow> response env = ApiThrows \<longrightarrow>
      (\<exists>child. evolveThinkers env pA pB g c = Inr (child, Some ''Signal purity lost. Sanctuary Declared.'')
         \<and> archetype child = Some VOID)) \<and>
   (apiKey env \<noteq> [] \<longrightarrow> response env = ApiJson d \<longrightarrow>
      (\<exists>child. evolveThinkers env pA pB g c = Inr (child, data_reasoning d) \<and>
         node_id child = newId env \<and> name child = data_name d \<and>
         archetype child = data_archetype d \<and>
         stats child = \<lparr>logic = data_logic d, creativity = data_creativity d,
                         empathy = data_empathy d, complexity = data_complexity d\<rparr> \<and>
         description child = data_description d \<and>
         instrument child = (case data_instrument d of
                               None \<Rightarrow> ''Harmonic Oscillator''
                             | Some s \<Rightarrow> if s = [] then ''Harmonic Oscillator'' else s) \<and>
         generation child = g + 1 \<and> parents child = Some [node_id pA, node_id pB]))"
  by (simp add: evolveThinkers_def split: ApiOutcome.splits)

theorem evolveThinkers_unvalidated_witness:
  "apiKey env_empty_answer \<noteq> [] \<and> response env_empty_answer = ApiJson empty_answer \<and>
   (\<exists>child. evolveThinkers env_empty_answer (INITIAL_NODES ! 0) (INITIAL_NODES ! 1) 0 None
               = Inr (child, None) \<and>
      node_id child = ''c1'' \<and> name child = None \<and> archetype child = None \<and>
      stats child = \<lparr>logic = None, creativity = None, empathy = None, complexity = None\<rparr> \<and>
      description child = None \<and> instrument child = ''Harmonic Oscillator'' \<and>
      generation child = 1 \<and>
      parents child = Some [''seed-source'', ''seed-harmonic''])"
proof -
  have k: "apiKey env_empty_answer \<noteq> []" and r: "response env_empty_answer = ApiJson empty_answer"
    by (simp_all add: env_empty_answer_def)
  have i: "node_id (INITIAL_NODES ! 0) = ''seed-source''" "node_id (INITIAL_NODES ! 1) = ''seed-harmonic''"
    by (simp_all add: INITIAL_NODES_def seed_node_def)
  have d: "data_name empty_answer = None" "data_archetype empty_answer = None"
    "data_logic empty_answer = None" "data_creativity empty_answer = None"
    "data_empathy empty_answer = None" "data_complexity empty_answer = None"
    "data_description empty_answer = None" "data_reasoning empty_answer = None"
    "newId env_empty_answer = ''c1''" "data_instrument empty_answer = None"
    by (simp_all add: empty_answer_def env_empty_answer_def)
  from evolveThinkers_unvalidated [of env_empty_answer "INITIAL_NODES ! 0" "INITIAL_NODES ! 1" 0 None empty_answer]
  have "\<exists>child. evolveThinkers env_empty_answer (INITIAL_NODES ! 0) (INITIAL_NODES ! 1) 0 None
               = Inr (child, data_reasoning empty_answer) \<and>
         node_id child = newId env_empty_answer \<and> name child = data_name empty_answer \<and>
         archetype child = data_archetype empty_answer \<and>
         stats child = \<lparr>logic = data_logic empty_answer, creativity = data_creativity empty_answer,
                         empathy = data_empathy empty_answer, complexity = data_complexity empty_answer\<rparr> \<and>
         description child = data_description empty_answer \<and>
         instrument child = (case data_instrument empty_answer of
                               None \<Rightarrow> ''Harmonic Oscillator''
                             | Some s \<Rightarrow> if s = [] then ''Harmonic Oscillator'' else s) \<and>
         generation child = 0 + 1 \<and>
         parents child = Some [node_id (INITIAL_NODES ! 0), node_id (INITIAL_NODES ! 1)]"
    using k r by blast
  then show ?thesis
    unfolding d i using k r by simp
qed

lemma empty_answer_eval:
  "evolveThinkers env_empty_answer (INITIAL_NODES ! 0) (INITIAL_NODES ! 1) (max (generation (INITIAL_NODES ! 0)) (generation (INITIAL_NODES ! 1)))
     (globalCoherence INITIAL_NODES) = Inr (empty_child, None)"
  by (simp add: evolveThinkers_def env_empty_answer_def empty_answer_def empty_child_def
        INITIAL_NODES_def seed_node_def)

lemma empty_answer_step:
  "case performEvolutionStep env_empty_answer seedApp of
     Inl _ \<Rightarrow> False
   | Inr a' \<Rightarrow> nodes (react a') = INITIAL_NODES @ [empty_child]"
  by code_simp

text \<open>
  C2, the counterexample. The answer is the empty object, so every required field is
  missing. The client returns a success whose entity has no name and an archetype
  that is not VOID, and the step commits that entity to the Store.
\<close>

theorem empty_answer_is_committed:
  "response env_empty_answer = ApiJson empty_answer \<and> data_name empty_answer = None \<and>
   evolveThinkers env_empty_answer (INITIAL_NODES ! 0) (INITIAL_NODES ! 1)
     (max (generation (INITIAL_NODES ! 0)) (generation (INITIAL_NODES ! 1)))
     (globalCoherence INITIAL_NODES) = Inr (empty_child, None) \<and>
   name empty_child = None \<and> archetype empty_child \<noteq> Some VOID \<and>
   (\<exists>a'. performEvolutionStep env_empty_answer seedApp = Inr a' \<and>
          nodes (react a') = INITIAL_NODES @ [empty_child])"
  using empty_answer_eval empty_answer_step
  by (auto simp: env_empty_answer_def empty_answer_def empty_child_def split: sum.splits)

section \<open>The eviction\<close>






















subsection \<open>The population at capacity\<close>









lemma twin_app_evicts:
  "case pruneStep env_api_throws twin_app of
     Inl _ \<Rightarrow> False
   | Inr (w, a1) \<Rightarrow> w = map filler_node [0..<43] \<and> nodes (react a1) = w"
  by code_simp

lemma twin_app_step:
  "case performEvolutionStep env_api_throws twin_app of
     Inl _ \<Rightarrow> False
   | Inr a' \<Rightarrow> nodes (react a') = map filler_node [0..<43]"
  by code_simp

lemma twin_app_simps:
  "nodes (stateRef twin_app) = nodes (react twin_app)"
  "nodes (react twin_app) = [twin_node ''Elder'', twin_node ''Echo''] @ map filler_node [0..<43]"
  by (simp_all add: twin_app_def twin_snapshot_def mount_def Let_def)



text \<open>
  The identifiers have to be distinct for the pruning to remove one entity: it keeps
  the nodes whose identifier is not that of the first node of the sorted array. In a
  Store at capacity in which two entities have the same identifier, the first of them
  with the smallest pair (generation, complexity), it removes both, and the step goes
  on with 43 entities.
\<close>

lemma duplicate_identifier_evicts_two:
  "nodes (stateRef twin_app) = nodes (react twin_app) \<and>
   nodes (react twin_app) = [twin_node ''Elder'', twin_node ''Echo''] @ map filler_node [0..<43] \<and>
   length (nodes (react twin_app)) = 45 \<and>
   node_id (twin_node ''Elder'') = node_id (twin_node ''Echo'') \<and>
   twin_node ''Elder'' \<noteq> twin_node ''Echo'' \<and>
   (\<exists>w a1 a'. pruneStep env_api_throws twin_app = Inr (w, a1) \<and>
      nodes (react a1) = w \<and> w = map filler_node [0..<43] \<and> length w = 43 \<and>
      performEvolutionStep env_api_throws twin_app = Inr a' \<and>
      length (nodes (react a')) = 43)"
proof -
  obtain w a1 where pr: "pruneStep env_api_throws twin_app = Inr (w, a1)"
    and w: "nodes (react a1) = w" "w = map filler_node [0..<43]"
    using twin_app_evicts by (auto split: sum.splits prod.splits)
  obtain a' where st: "performEvolutionStep env_api_throws twin_app = Inr a'"
    and n: "nodes (react a') = map filler_node [0..<43]"
    using twin_app_step by (auto split: sum.splits)
  have l: "length w = 43" "length (nodes (react a')) = 43" by (simp_all add: w n)
  have ex: "\<exists>w a1 a'. pruneStep env_api_throws twin_app = Inr (w, a1) \<and>
      nodes (react a1) = w \<and> w = map filler_node [0..<43] \<and> length w = 43 \<and>
      performEvolutionStep env_api_throws twin_app = Inr a' \<and>
      length (nodes (react a')) = 43"
    apply (rule exI [of _ w], rule exI [of _ a1], rule exI [of _ a'])
    apply (intro conjI)
    apply (rule pr, rule w(1), rule w(2), rule l(1), rule st, rule l(2))
    done
  have tw: "node_id (twin_node ''Elder'') = node_id (twin_node ''Echo'')"
    "twin_node ''Elder'' \<noteq> twin_node ''Echo''"
    by (simp_all add: twin_node_def)
  have len: "length (nodes (react twin_app)) = 45" by (simp add: twin_app_simps)
  show ?thesis
    apply (intro conjI)
    apply (rule twin_app_simps(1), rule twin_app_simps(2), rule len, rule tw(1), rule tw(2), rule ex)
    done
qed






section \<open>Steps inside ticks\<close>

lemma loop_form:
  "\<exists>b dl. nodes (react b) = nodes (react a) \<and> links (react b) = links (react a) \<and>
          stateRef b = stateRef a \<and> localStorage b = localStorage a \<and>
          loop env a =
            (case (if \<not> isPaused (stateRef a) then performEvolutionStep env b else Inr b) of
               Inl e \<Rightarrow> Inl e
             | Inr a2 \<Rightarrow> Inr (dl, if emergencyCoolDownRef a2
                                  then a2\<lparr>emergencyCoolDownRef := False\<rparr> else a2))"
proof (cases "emergencyCoolDownRef a")
  case True
  show ?thesis
    by (rule exI [of _ "setTimeMultiplier 0.001 a"], rule exI [of _ "max 750 (min 10000 60000)"])
       (simp add: loop_def Let_def True app_defs)
next
  case cool: False
  show ?thesis
  proof (cases "isFluxMode (stateRef a)")
    case True
    show ?thesis
      by (rule exI [of _ "setTimeMultiplier (10 powr (sin (fluxPhaseRef a + 0.1) * 3))
                            (a\<lparr>fluxPhaseRef := fluxPhaseRef a + 0.1\<rparr>)"],
          rule exI [of _ "max 750 (min (EVOLUTION_INTERVAL_MS /
                            (10 powr (sin (fluxPhaseRef a + 0.1) * 3))) 60000)"])
         (simp add: loop_def Let_def True cool app_defs)
  next
    case False
    show ?thesis
      by (rule exI [of _ "if timeMultiplier (stateRef a) \<noteq> 1 then setTimeMultiplier 1 a else a"],
          rule exI [of _ "max 750 (min EVOLUTION_INTERVAL_MS 60000)"])
         (simp add: loop_def Let_def False cool app_defs)
  qed
qed


text \<open>
  The step properties above are stated for a step that starts with the rendered nodes
  being those of the Store. Every tick that is not paused runs the step on such a
  state, with the nodes and links the tick started from, and ends with the Store the
  step leaves.
\<close>

lemma tick_runs_step:
  assumes t: "tick env a = Inr (d, a')" and np: "\<not> isPaused (react a)"
  shows "\<exists>b a2. nodes (stateRef b) = nodes (react b) \<and> nodes (react b) = nodes (react a) \<and>
           links (react b) = links (react a) \<and>
           performEvolutionStep env b = Inr a2 \<and>
           nodes (react a') = nodes (react a2) \<and> links (react a') = links (react a2)"
proof -
  from loop_form [of "render a" env] obtain b dl where
    b: "nodes (react b) = nodes (react (render a))" "links (react b) = links (react (render a))"
       "stateRef b = stateRef (render a)" and
    l: "loop env (render a) =
            (case (if \<not> isPaused (stateRef (render a)) then performEvolutionStep env b else Inr b) of
               Inl e \<Rightarrow> Inl e
             | Inr a2 \<Rightarrow> Inr (dl, if emergencyCoolDownRef a2
                                  then a2\<lparr>emergencyCoolDownRef := False\<rparr> else a2))"
    by blast
  have "\<not> isPaused (stateRef (render a))" using np by (simp add: render_def)
  then obtain a2 where st: "performEvolutionStep env b = Inr a2"
    and a': "a' = (if emergencyCoolDownRef a2 then a2\<lparr>emergencyCoolDownRef := False\<rparr> else a2)"
    using t l by (auto simp: tick_def split: sum.splits)
  have e: "nodes (react a') = nodes (react a2)" "links (react a') = links (react a2)"
    by (simp_all add: a')
  have s: "nodes (stateRef b) = nodes (react b)" "nodes (react b) = nodes (react a)"
    "links (react b) = links (react a)"
    using b by (simp_all add: render_def)
  show ?thesis
    apply (rule exI [of _ b], rule exI [of _ a2])
    apply (intro conjI)
    apply (rule s(1), rule s(2), rule s(3), rule st, rule e(1), rule e(2))
    done
qed


section \<open>Ancestry edges in the reachable Stores\<close>














































subsection \<open>A tick is a run of the overlapping steps\<close>





subsection \<open>Filling the Store\<close>



















subsection \<open>A load while the synthesis call is awaited\<close>








end
